theory Spec2Isabelle
  imports Main "HOL-Library.Sublist"
begin

section \<open>The data processor of yggdrasil: receive and return handlers\<close>

text \<open>
  The development embeds the two handlers of \<^verbatim>\<open>DataProcessor\<close>
  (\<^verbatim>\<open>HandleDataRecvSignal\<close> and \<^verbatim>\<open>HandleDataReturnSignal\<close>) as functions on an
  explicit state: the record store \<^verbatim>\<open>p.db\<close> and the chronological list of everything
  the handler does to the outside (logger calls, signal emissions, HTTP calls).
  A Go \<^verbatim>\<open>string\<close> and a \<^verbatim>\<open>[]byte\<close> are both sequences of bytes; both are the type
  \<open>string\<close> here (a \<open>char\<close> is one byte), so that \<^verbatim>\<open>string(data)\<close> is the identity.
\<close>

subsection \<open>Data\<close>

type_synonym bytes = string

text \<open>
  Modelled from the spec: the declaration of \<^verbatim>\<open>Data\<close> is not part of the sources at
  hand. The fields are those the handlers read and write, with the types the handlers
  use them at (\<^verbatim>\<open>Metadata\<close> is ranged over as a map from string to string; the
  association list fixes one iteration order).
\<close>

record Data =
  MessageID :: string
  ResponseTo :: string
  Directive :: string
  Metadata :: "(string \<times> string) list"
  Content :: bytes

text \<open>
  Modelled from the spec: the declaration of \<^verbatim>\<open>Worker\<close> is not part of the sources at
  hand. \<open>Handler\<close> is the field behind the index \<^verbatim>\<open>indexNameHandler\<close>.
\<close>

record Worker =
  Handler :: string
  detachedContent :: bool

text \<open>
  A value of type \<^verbatim>\<open>interface{}\<close>: what arrives on a channel and what
  \<^verbatim>\<open>tx.First\<close> returns. A type assertion \<^verbatim>\<open>x.(T)\<close> without the second result
  panics unless \<open>x\<close> holds a \<open>T\<close>; in particular it panics on \<^verbatim>\<open>nil\<close>.
\<close>

datatype iface = INil | IString string | IData Data | IWorker Worker

datatype error =
    StoreError string
  | UnmarshalError string
  | TransportError string
  | ReadError string
  | URLError string
  | APIResponseError int string

text \<open>
  An HTTP response as the handlers use it: the status code and the outcome of
  \<^verbatim>\<open>ioutil.ReadAll(resp.Body)\<close>.
\<close>

record Response =
  StatusCode :: int
  Body :: "error + bytes"

text \<open>
  An HTTP request as the return handler builds it. \<open>Header\<close> lists the calls of
  \<^verbatim>\<open>req.Header.Add\<close> in order.
\<close>

record Request =
  Method :: string
  URL :: string
  Header :: "(string \<times> string) list"
  ReqBody :: bytes

text \<open>
  The outcome of a call into the HTTP client: \<^verbatim>\<open>(nil, err)\<close>, \<^verbatim>\<open>(resp, nil)\<close>, or a
  panic inside the call (the client is handed a \<^verbatim>\<open>nil\<close> request when
  \<^verbatim>\<open>http.NewRequest\<close> has failed).
\<close>

datatype httpResult = Panics string | Fails error | Responds Response

datatype tableName = tableNameData | tableNameWorker

datatype indexName = indexNameID | indexNameHandler

text \<open>
  Everything the handlers call that is not in the sources at hand, as parameters:
  backend failures of the store, \<^verbatim>\<open>json.Unmarshal\<close> into a string,
  \<^verbatim>\<open>strings.TrimSpace\<close>, the URL check of \<^verbatim>\<open>http.NewRequest\<close>, and the two methods
  of \<^verbatim>\<open>HTTPClient\<close>.
\<close>

record env =
  lookupFault :: "tableName \<Rightarrow> indexName \<Rightarrow> string \<Rightarrow> error option"
  insertFault :: "tableName \<Rightarrow> Data \<Rightarrow> error option"
  jsonUnmarshal :: "bytes \<Rightarrow> error + string"
  TrimSpace :: "string \<Rightarrow> string"
  newRequestFault :: "string \<Rightarrow> string \<Rightarrow> error option"
  Get :: "string \<Rightarrow> httpResult"
  Do :: "Request option \<Rightarrow> httpResult"

subsection \<open>The record store\<close>

record store =
  dataTable :: "Data list"
  workerTable :: "Worker list"

text \<open>
  Modelled from the spec: the store and its schema (the tables and indices behind
  \<^verbatim>\<open>tableNameData\<close>, \<^verbatim>\<open>tableNameWorker\<close>, \<^verbatim>\<open>indexNameID\<close>, \<^verbatim>\<open>indexNameHandler\<close>) are
  not part of the sources at hand. Message records are indexed by \<open>MessageID\<close>, Worker
  records by \<open>Handler\<close>; a lookup returns the matching record, or \<^verbatim>\<open>nil\<close> without an
  error when there is none, or an error when the backend fails.
\<close>

fun First :: "env \<Rightarrow> store \<Rightarrow> tableName \<Rightarrow> indexName \<Rightarrow> string \<Rightarrow> error + iface" where
  "First env s tableNameData indexNameID k =
     (case lookupFault env tableNameData indexNameID k of
        Some err \<Rightarrow> Inl err
      | None \<Rightarrow>
          (case find (\<lambda>d. MessageID d = k) (dataTable s) of
             None \<Rightarrow> Inr INil
           | Some d \<Rightarrow> Inr (IData d)))"
| "First env s tableNameWorker indexNameHandler k =
     (case lookupFault env tableNameWorker indexNameHandler k of
        Some err \<Rightarrow> Inl err
      | None \<Rightarrow>
          (case find (\<lambda>w. Handler w = k) (workerTable s) of
             None \<Rightarrow> Inr INil
           | Some w \<Rightarrow> Inr (IWorker w)))"
| "First env s t i k = Inl (StoreError ''invalid index'')"

text \<open>
  Modelled from the spec: an insert into the Message table is keyed by the record's
  \<open>MessageID\<close>; it takes the place of the record stored under that identifier, and
  adds the record when there is none.
\<close>

fun replaceByID :: "Data \<Rightarrow> Data list \<Rightarrow> Data list" where
  "replaceByID d [] = [d]"
| "replaceByID d (x # xs) =
     (if MessageID x = MessageID d then d # xs else x # replaceByID d xs)"

fun Insert :: "env \<Rightarrow> store \<Rightarrow> tableName \<Rightarrow> Data \<Rightarrow> error + store" where
  "Insert env s tableNameData d =
     (case insertFault env tableNameData d of
        Some err \<Rightarrow> Inl err
      | None \<Rightarrow> Inr (s\<lparr>dataTable := replaceByID d (dataTable s)\<rparr>))"
| "Insert env s tableNameWorker d = Inl (StoreError ''invalid object'')"

subsection \<open>What a handler does to the outside\<close>

definition SignalDataProcess :: string where
  "SignalDataProcess = ''data-process''"

definition SignalDataConsume :: string where
  "SignalDataConsume = ''data-consume''"

datatype level = LevelError | LevelInfo | LevelDebug | LevelTrace

datatype logmsg =
    Entered string
  | ReceivedValue string
  | ErrorValue error
  | NoWorkerRegistered string
  | EmittedSignal string
  | EmittedValue string
  | FetchingContent string
  | CreatedRequest "Request option"
  | ResponseBody string
  | ResponseValue Response

datatype event =
    Log level logmsg
  | Emit string string
  | HTTPGet string
  | HTTPDo "Request option"
  | BodyClose

record state =
  db :: store
  events :: "event list"

definition happen :: "event list \<Rightarrow> state \<Rightarrow> state" where
  "happen evs st = st\<lparr>events := events st @ evs\<rparr>"

text \<open>
  How the anonymous function of one message ends: by returning (at its end or at one of
  its \<^verbatim>\<open>return\<close> statements) or by a panic. Neither handler recovers from a panic.
\<close>

datatype flow = Returned | Panicked string

text \<open>\<^verbatim>\<open>defer resp.Body.Close()\<close>: runs when the anonymous function is left.\<close>

definition deferClose :: "flow \<times> state \<Rightarrow> flow \<times> state" where
  "deferClose r = (fst r, happen [BodyClose] (snd r))"

subsection \<open>The receive handler\<close>

text \<open>Lines 129 to 139: the write transaction and the emission of \<^verbatim>\<open>data-process\<close>.\<close>

definition recvStore :: "env \<Rightarrow> Data \<Rightarrow> state \<Rightarrow> flow \<times> state" where
  "recvStore env dataMessage st =
     (case Insert env (db st) tableNameData dataMessage of
        Inl err \<Rightarrow> (Returned, happen [Log LevelError (ErrorValue err)] st)
      | Inr db' \<Rightarrow>
          (Returned,
           happen [Emit SignalDataProcess (MessageID dataMessage),
                   Log LevelDebug (EmittedSignal SignalDataProcess),
                   Log LevelTrace (EmittedValue (MessageID dataMessage))]
             (st\<lparr>db := db'\<rparr>)))"

text \<open>Lines 98 to 126: the body of \<^verbatim>\<open>if worker.detachedContent\<close>, then lines 129 to 139.\<close>

definition recvDetached :: "env \<Rightarrow> Data \<Rightarrow> state \<Rightarrow> flow \<times> state" where
  "recvDetached env dataMessage st =
     (case jsonUnmarshal env (Content dataMessage) of
        Inl err \<Rightarrow> (Returned, happen [Log LevelError (ErrorValue err)] st)
      | Inr url \<Rightarrow>
          (let st1 = happen [Log LevelTrace (FetchingContent url), HTTPGet url] st in
           case Get env url of
             Panics p \<Rightarrow> (Panicked p, st1)
           | Fails err \<Rightarrow> (Returned, happen [Log LevelError (ErrorValue err)] st1)
           | Responds resp \<Rightarrow>
               deferClose
                 (case Body resp of
                    Inl err \<Rightarrow> (Returned, happen [Log LevelError (ErrorValue err)] st1)
                  | Inr data \<Rightarrow>
                      if StatusCode resp \<ge> 400
                      then (Returned,
                            happen [Log LevelError (ErrorValue
                                      (APIResponseError (StatusCode resp) (TrimSpace env data)))]
                              st1)
                      else recvStore env (dataMessage\<lparr>Content := data\<rparr>)
                             (happen [Log LevelInfo (ResponseBody (TrimSpace env data)),
                                      Log LevelTrace (ResponseValue resp)]
                                st1))))"

text \<open>Lines 63 to 140: the anonymous function run for one value \<open>e\<close> of the channel.\<close>

definition recvClosure :: "env \<Rightarrow> iface \<Rightarrow> state \<Rightarrow> flow \<times> state" where
  "recvClosure env e st =
     (case e of
        IString messageID \<Rightarrow>
          (let st1 = happen [Log LevelDebug (Entered ''HandleDataRecvSignal''),
                             Log LevelTrace (ReceivedValue messageID)] st in
           case First env (db st1) tableNameData indexNameID messageID of
             Inl err \<Rightarrow> (Returned, happen [Log LevelError (ErrorValue err)] st1)
           | Inr (IData dataMessage) \<Rightarrow>
               (case First env (db st1) tableNameWorker indexNameHandler (Directive dataMessage) of
                  Inl err \<Rightarrow> (Returned, happen [Log LevelError (ErrorValue err)] st1)
                | Inr INil \<Rightarrow>
                    (Returned,
                     happen [Log LevelError (NoWorkerRegistered (Directive dataMessage)),
                             Emit SignalDataConsume (MessageID dataMessage),
                             Log LevelDebug (EmittedSignal SignalDataConsume),
                             Log LevelTrace (EmittedValue (MessageID dataMessage))]
                       st1)
                | Inr (IWorker worker) \<Rightarrow>
                    if detachedContent worker
                    then recvDetached env dataMessage st1
                    else recvStore env dataMessage st1
                | Inr _ \<Rightarrow> (Panicked ''interface conversion: interface {} is not Worker'', st1))
           | Inr _ \<Rightarrow> (Panicked ''interface conversion: interface {} is not Data'', st1))
      | _ \<Rightarrow> (Panicked ''interface conversion: interface {} is not string'', st))"

text \<open>
  Lines 61 to 142: \<^verbatim>\<open>for e := range c\<close>. The list is what the channel delivers until it
  is closed. A panic of the anonymous function is not recovered: it ends the loop.
\<close>

fun HandleDataRecvSignal :: "env \<Rightarrow> iface list \<Rightarrow> state \<Rightarrow> flow \<times> state" where
  "HandleDataRecvSignal env [] st = (Returned, st)"
| "HandleDataRecvSignal env (e # c) st =
     (case recvClosure env e st of
        (Returned, st') \<Rightarrow> HandleDataRecvSignal env c st'
      | (Panicked p, st') \<Rightarrow> (Panicked p, st'))"

subsection \<open>The return handler\<close>

definition MethodPost :: string where
  "MethodPost = ''POST''"

text \<open>
  \<^verbatim>\<open>http.NewRequest\<close> with a body read from a byte slice: it fails when the method or
  the URL is refused, and returns the request otherwise.
\<close>

definition NewRequest :: "env \<Rightarrow> string \<Rightarrow> string \<Rightarrow> bytes \<Rightarrow> error + Request" where
  "NewRequest env method url body =
     (case newRequestFault env method url of
        Some err \<Rightarrow> Inl err
      | None \<Rightarrow> Inr \<lparr>Method = method, URL = url, Header = [], ReqBody = body\<rparr>)"

text \<open>
  Lines 187 to 189: one \<^verbatim>\<open>req.Header.Add\<close> for each entry of the metadata. The
  request is a pointer, \<^verbatim>\<open>nil\<close> when \<^verbatim>\<open>http.NewRequest\<close> has failed (line 185 does not
  look at its error); the first \<^verbatim>\<open>Add\<close> then dereferences \<^verbatim>\<open>nil\<close>.
\<close>

fun addHeaders :: "env \<Rightarrow> (string \<times> string) list \<Rightarrow> Request option \<Rightarrow> string + Request option" where
  "addHeaders env [] req = Inr req"
| "addHeaders env ((k, v) # kvs) None = Inl ''invalid memory address or nil pointer dereference''"
| "addHeaders env ((k, v) # kvs) (Some r) =
     addHeaders env kvs (Some (r\<lparr>Header := Header r @ [(k, TrimSpace env v)]\<rparr>))"

text \<open>Lines 215 to 217: the emission of \<^verbatim>\<open>data-consume\<close>.\<close>

definition returnRetire :: "Data \<Rightarrow> state \<Rightarrow> flow \<times> state" where
  "returnRetire dataMessage st =
     (Returned,
      happen [Emit SignalDataConsume (MessageID dataMessage),
              Log LevelDebug (EmittedSignal SignalDataConsume),
              Log LevelTrace (EmittedValue (MessageID dataMessage))]
        st)"

text \<open>
  Lines 190 to 212: the request is traced and sent, the body is read, the status is
  looked at; then lines 215 to 217.
\<close>

definition returnSend :: "env \<Rightarrow> Data \<Rightarrow> Request option \<Rightarrow> state \<Rightarrow> flow \<times> state" where
  "returnSend env dataMessage req st =
     (let st1 = happen [Log LevelTrace (CreatedRequest req), HTTPDo req] st in
      case Do env req of
        Panics p \<Rightarrow> (Panicked p, st1)
      | Fails err \<Rightarrow> (Returned, happen [Log LevelError (ErrorValue err)] st1)
      | Responds resp \<Rightarrow>
          deferClose
            (case Body resp of
               Inl err \<Rightarrow> (Returned, happen [Log LevelError (ErrorValue err)] st1)
             | Inr data \<Rightarrow>
                 if StatusCode resp \<ge> 400
                 then (Returned,
                       happen [Log LevelError (ErrorValue
                                 (APIResponseError (StatusCode resp) (TrimSpace env data)))]
                         st1)
                 else returnRetire dataMessage
                        (happen [Log LevelInfo (ResponseBody (TrimSpace env data)),
                                 Log LevelTrace (ResponseValue resp)]
                           st1)))"

text \<open>
  Lines 185 to 189: the body of \<^verbatim>\<open>if worker.detachedContent\<close> up to the request with
  its headers; then lines 190 to 217.
\<close>

definition returnDetached :: "env \<Rightarrow> Data \<Rightarrow> state \<Rightarrow> flow \<times> state" where
  "returnDetached env dataMessage st =
     (let req = (case NewRequest env MethodPost (Directive dataMessage) (Content dataMessage) of
                   Inl err \<Rightarrow> None
                 | Inr r \<Rightarrow> Some r) in
      case addHeaders env (Metadata dataMessage) req of
        Inl p \<Rightarrow> (Panicked p, st)
      | Inr req' \<Rightarrow> returnSend env dataMessage req' st)"

text \<open>Lines 149 to 218: the anonymous function run for one value \<open>e\<close> of the channel.\<close>

definition returnClosure :: "env \<Rightarrow> iface \<Rightarrow> state \<Rightarrow> flow \<times> state" where
  "returnClosure env e st =
     (case e of
        IString messageID \<Rightarrow>
          (let st1 = happen [Log LevelDebug (Entered ''HandleDataReturnSignal''),
                             Log LevelTrace (ReceivedValue messageID)] st in
           case First env (db st1) tableNameData indexNameID messageID of
             Inl err \<Rightarrow> (Returned, happen [Log LevelError (ErrorValue err)] st1)
           | Inr (IData dataMessage) \<Rightarrow>
               (case First env (db st1) tableNameData indexNameID (ResponseTo dataMessage) of
                  Inl err \<Rightarrow> (Returned, happen [Log LevelError (ErrorValue err)] st1)
                | Inr (IData originalMessage) \<Rightarrow>
                    (case First env (db st1) tableNameWorker indexNameHandler
                            (Directive originalMessage) of
                       Inl err \<Rightarrow> (Returned, happen [Log LevelError (ErrorValue err)] st1)
                     | Inr (IWorker worker) \<Rightarrow>
                         if detachedContent worker
                         then returnDetached env dataMessage st1
                         else returnRetire dataMessage st1
                     | Inr _ \<Rightarrow>
                         (Panicked ''interface conversion: interface {} is not Worker'', st1))
                | Inr _ \<Rightarrow> (Panicked ''interface conversion: interface {} is not Data'', st1))
           | Inr _ \<Rightarrow> (Panicked ''interface conversion: interface {} is not Data'', st1))
      | _ \<Rightarrow> (Panicked ''interface conversion: interface {} is not string'', st))"

text \<open>Lines 147 to 220: \<^verbatim>\<open>for e := range c\<close>, as in the receive handler.\<close>

fun HandleDataReturnSignal :: "env \<Rightarrow> iface list \<Rightarrow> state \<Rightarrow> flow \<times> state" where
  "HandleDataReturnSignal env [] st = (Returned, st)"
| "HandleDataReturnSignal env (e # c) st =
     (case returnClosure env e st of
        (Returned, st') \<Rightarrow> HandleDataReturnSignal env c st'
      | (Panicked p, st') \<Rightarrow> (Panicked p, st'))"

subsection \<open>Reading a list of events\<close>

text \<open>The values emitted on one signal, in order.\<close>

fun emitted :: "string \<Rightarrow> event list \<Rightarrow> string list" where
  "emitted topic [] = []"
| "emitted topic (Emit t v # evs) =
     (if t = topic then v # emitted topic evs else emitted topic evs)"
| "emitted topic (ev # evs) = emitted topic evs"

text \<open>The calls into the HTTP client, in order.\<close>

fun httpCalls :: "event list \<Rightarrow> event list" where
  "httpCalls [] = []"
| "httpCalls (HTTPGet url # evs) = HTTPGet url # httpCalls evs"
| "httpCalls (HTTPDo req # evs) = HTTPDo req # httpCalls evs"
| "httpCalls (ev # evs) = httpCalls evs"

text \<open>The values a handler has taken from its channel and traced, in order.\<close>

fun observed :: "event list \<Rightarrow> string list" where
  "observed [] = []"
| "observed (Log LevelTrace (ReceivedValue v) # evs) = v # observed evs"
| "observed (ev # evs) = observed evs"

text \<open>The errors logged, in order.\<close>

fun reported :: "event list \<Rightarrow> error list" where
  "reported [] = []"
| "reported (Log LevelError (ErrorValue err) # evs) = err # reported evs"
| "reported (ev # evs) = reported evs"

subsection \<open>A concrete store and environment\<close>

text \<open>
  One environment and one store to run the handlers on: a worker \<open>echo\<close> that takes
  its content inline, a worker \<open>fetch\<close> with detached content, four inbound messages
  and six replies.
\<close>

definition exTrim :: "string \<Rightarrow> string" where
  "exTrim s = rev (dropWhile (\<lambda>c. c = CHR '' '') (rev (dropWhile (\<lambda>c. c = CHR '' '') s)))"

definition exUnmarshal :: "bytes \<Rightarrow> error + string" where
  "exUnmarshal b =
     (case b of
        [] \<Rightarrow> Inl (UnmarshalError ''unexpected end of JSON input'')
      | c # cs \<Rightarrow>
          if c = CHR 0x22 \<and> cs \<noteq> [] \<and> last cs = CHR 0x22 then Inr (butlast cs)
          else Inl (UnmarshalError ''cannot unmarshal into Go value of type string''))"

definition exGet :: "string \<Rightarrow> httpResult" where
  "exGet url =
     (if url = ''http://example.test/data''
      then Responds \<lparr>StatusCode = 200, Body = Inr ''payload''\<rparr>
      else if url = ''http://example.test/gone''
      then Responds \<lparr>StatusCode = 404, Body = Inr ''not found''\<rparr>
      else Fails (TransportError ''no such host''))"

definition exDo :: "Request option \<Rightarrow> httpResult" where
  "exDo req =
     (case req of
        None \<Rightarrow> Panics ''invalid memory address or nil pointer dereference''
      | Some r \<Rightarrow>
          if URL r = ''http://example.test/ok''
          then Responds \<lparr>StatusCode = 200, Body = Inr ''accepted''\<rparr>
          else if URL r = ''http://example.test/deny''
          then Responds \<lparr>StatusCode = 403, Body = Inr ''forbidden''\<rparr>
          else Fails (TransportError ''no such host''))"

definition exEnv :: env where
  "exEnv = \<lparr>lookupFault = (\<lambda>t i k. None),
            insertFault = (\<lambda>t d. None),
            jsonUnmarshal = exUnmarshal,
            TrimSpace = exTrim,
            newRequestFault = (\<lambda>m u. if u = [] then Some (URLError ''empty url'') else None),
            Get = exGet,
            Do = exDo\<rparr>"

definition mkData :: "string \<Rightarrow> string \<Rightarrow> string \<Rightarrow> bytes \<Rightarrow> Data" where
  "mkData i r d c = \<lparr>MessageID = i, ResponseTo = r, Directive = d, Metadata = [], Content = c\<rparr>"

definition exStore :: store where
  "exStore =
     \<lparr>dataTable =
        [mkData ''m1'' [] ''echo'' ''hello'',
         mkData ''m2'' [] ''fetch'' (CHR 0x22 # ''http://example.test/data'' @ [CHR 0x22]),
         mkData ''m3'' [] ''fetch'' (CHR 0x22 # ''http://example.test/gone'' @ [CHR 0x22]),
         mkData ''m4'' [] ''nobody'' ''hello'',
         mkData ''r1'' ''m1'' ''http://example.test/ok'' ''done'',
         (mkData ''r2'' ''m2'' ''http://example.test/ok'' ''done'')
           \<lparr>Metadata := [(''X-Request-Id'', '' 7 '')]\<rparr>,
         mkData ''r3'' ''m2'' ''http://example.test/deny'' ''done'',
         mkData ''r4'' ''m2'' ''http://example.test/down'' ''done'',
         mkData ''r5'' ''zz'' ''http://example.test/ok'' ''done'',
         mkData ''r6'' ''m4'' ''http://example.test/ok'' ''done''],
      workerTable =
        [\<lparr>Handler = ''echo'', detachedContent = False\<rparr>,
         \<lparr>Handler = ''fetch'', detachedContent = True\<rparr>]\<rparr>"

definition exState :: state where
  "exState = \<lparr>db = exStore, events = []\<rparr>"

section \<open>Properties\<close>

subsection \<open>Events and lookups\<close>

lemma events_happen [simp]: "events (happen evs st) = events st @ evs"
  by (simp add: happen_def)

lemma db_happen [simp]: "db (happen evs st) = db st"
  by (simp add: happen_def)

lemma happen_happen: "happen xs (happen ys st) = happen (ys @ xs) st"
  by (simp add: happen_def)

lemma emitted_append [simp]: "emitted topic (xs @ ys) = emitted topic xs @ emitted topic ys"
  by (induction topic xs rule: emitted.induct) simp_all

lemma httpCalls_append [simp]: "httpCalls (xs @ ys) = httpCalls xs @ httpCalls ys"
  by (induction xs rule: httpCalls.induct) simp_all

lemma observed_append [simp]: "observed (xs @ ys) = observed xs @ observed ys"
  by (induction xs rule: observed.induct) simp_all

lemma reported_append [simp]: "reported (xs @ ys) = reported xs @ reported ys"
  by (induction xs rule: reported.induct) simp_all

lemma signals_differ [simp]:
  "SignalDataProcess \<noteq> SignalDataConsume" "SignalDataConsume \<noteq> SignalDataProcess"
  by (simp_all add: SignalDataProcess_def SignalDataConsume_def)

lemma First_data_MessageID:
  "First env s tableNameData indexNameID k = Inr (IData d) \<Longrightarrow> MessageID d = k"
  by (auto split: option.splits simp: find_Some_iff)

lemma First_data_cases:
  "First env s tableNameData indexNameID k = Inr obj \<Longrightarrow> obj = INil \<or> (\<exists>d. obj = IData d)"
  by (auto split: option.splits)

lemma First_worker_cases:
  "First env s tableNameWorker indexNameHandler k = Inr obj \<Longrightarrow>
   obj = INil \<or> (\<exists>w. obj = IWorker w)"
  by (auto split: option.splits)

lemma First_worker_absent:
  "lookupFault env tableNameWorker indexNameHandler k = None \<Longrightarrow>
   \<forall>w \<in> set (workerTable s). Handler w \<noteq> k \<Longrightarrow>
   First env s tableNameWorker indexNameHandler k = Inr INil"
  by (auto split: option.splits simp: find_None_iff find_Some_iff)

lemma find_replaceByID:
  "find (\<lambda>x. MessageID x = MessageID d) (replaceByID d xs) = Some d"
  by (induction xs) simp_all

lemma map_MessageID_replaceByID:
  "find (\<lambda>x. MessageID x = MessageID d) xs = Some d0 \<Longrightarrow>
   map MessageID (replaceByID d xs) = map MessageID xs"
  by (induction xs) (auto split: if_splits)

lemma First_after_Insert:
  assumes "First env s tableNameData indexNameID k = Inr (IData d0)"
    and "MessageID d = k"
    and "Insert env s tableNameData d = Inr s'"
  shows "First env s' tableNameData indexNameID k = Inr (IData d)"
  using assms find_replaceByID [of d "dataTable s"]
  by (auto split: option.splits)

lemma Insert_keeps_ids:
  assumes "First env s tableNameData indexNameID k = Inr (IData d0)"
    and "MessageID d = k"
    and "Insert env s tableNameData d = Inr s'"
  shows "map MessageID (dataTable s') = map MessageID (dataTable s) \<and>
         workerTable s' = workerTable s"
  using assms map_MessageID_replaceByID [of d "dataTable s"]
  by (auto split: option.splits)

declare First.simps [simp del] Insert.simps [simp del]

lemmas handler_defs =
  recvClosure_def recvDetached_def recvStore_def
  returnClosure_def returnDetached_def returnSend_def returnRetire_def
  NewRequest_def deferClose_def Let_def

lemmas example_defs =
  exEnv_def exStore_def exState_def mkData_def exGet_def exDo_def exUnmarshal_def exTrim_def
  SignalDataConsume_def SignalDataProcess_def MethodPost_def First.simps Insert.simps

subsection \<open>The store under the handlers\<close>

lemma recvStore_ids:
  assumes "First env (db st) tableNameData indexNameID k = Inr (IData d0)"
    and "MessageID d = k"
  shows "map MessageID (dataTable (db (snd (recvStore env d st)))) =
           map MessageID (dataTable (db st)) \<and>
         workerTable (db (snd (recvStore env d st))) = workerTable (db st)"
proof (cases "Insert env (db st) tableNameData d")
  case (Inl err)
  then show ?thesis by (simp add: recvStore_def)
next
  case (Inr s')
  from Insert_keeps_ids [OF assms Inr] Inr
  show ?thesis by (simp add: recvStore_def)
qed

lemma recvDetached_ids:
  assumes "First env (db st) tableNameData indexNameID k = Inr (IData d)"
  shows "map MessageID (dataTable (db (snd (recvDetached env d st)))) =
           map MessageID (dataTable (db st)) \<and>
         workerTable (db (snd (recvDetached env d st))) = workerTable (db st)"
proof -
  have k: "MessageID d = k" using assms by (rule First_data_MessageID)
  have a: "map MessageID (dataTable (db (snd (recvStore env (d\<lparr>Content := c\<rparr>) (happen evs st))))) =
             map MessageID (dataTable (db st)) \<and>
           workerTable (db (snd (recvStore env (d\<lparr>Content := c\<rparr>) (happen evs st)))) =
             workerTable (db st)" for c evs
    using recvStore_ids [of env "happen evs st" k d "d\<lparr>Content := c\<rparr>"] assms k
    by simp
  show ?thesis
    by (simp add: recvDetached_def deferClose_def Let_def happen_happen a
        split: sum.splits httpResult.splits)
qed

lemma recvClosure_ids:
  "map MessageID (dataTable (db (snd (recvClosure env e st)))) =
     map MessageID (dataTable (db st)) \<and>
   workerTable (db (snd (recvClosure env e st))) = workerTable (db st)"
proof (cases e)
  case (IString messageID)
  let ?st1 = "happen [Log LevelDebug (Entered ''HandleDataRecvSignal''),
                      Log LevelTrace (ReceivedValue messageID)] st"
  show ?thesis
  proof (cases "First env (db st) tableNameData indexNameID messageID")
    case (Inl err)
    with IString show ?thesis by (simp add: recvClosure_def Let_def)
  next
    case (Inr obj)
    from First_data_cases [OF Inr] show ?thesis
    proof
      assume "obj = INil"
      with IString Inr show ?thesis by (simp add: recvClosure_def Let_def)
    next
      assume "\<exists>d. obj = IData d"
      then obtain d where d: "obj = IData d" ..
      have f: "First env (db ?st1) tableNameData indexNameID messageID = Inr (IData d)"
        using Inr d by simp
      have k: "MessageID d = messageID" using f by (rule First_data_MessageID)
      from IString Inr d recvDetached_ids [OF f] recvStore_ids [OF f k]
      show ?thesis
        by (simp add: recvClosure_def Let_def split: sum.splits iface.splits)
    qed
  qed
qed (simp_all add: recvClosure_def)

lemma returnSend_db [simp]: "db (snd (returnSend env d req st)) = db st"
  by (simp add: returnSend_def returnRetire_def deferClose_def Let_def
      split: sum.splits httpResult.splits)

lemma returnDetached_db [simp]: "db (snd (returnDetached env d st)) = db st"
proof (cases "addHeaders env (Metadata d)
    (case NewRequest env MethodPost (Directive d) (Content d) of Inl err \<Rightarrow> None | Inr r \<Rightarrow> Some r)")
  case (Inl p)
  then show ?thesis by (simp add: returnDetached_def)
next
  case (Inr req)
  then show ?thesis by (simp add: returnDetached_def)
qed

lemma returnClosure_db: "db (snd (returnClosure env e st)) = db st"
  by (simp add: returnClosure_def returnRetire_def Let_def
      split: iface.splits sum.splits)

lemma HandleDataRecvSignal_ids:
  "map MessageID (dataTable (db (snd (HandleDataRecvSignal env c st)))) =
     map MessageID (dataTable (db st)) \<and>
   workerTable (db (snd (HandleDataRecvSignal env c st))) = workerTable (db st)"
proof (induction c arbitrary: st)
  case Nil
  show ?case by simp
next
  case (Cons e c)
  obtain fl1 st1 where r: "recvClosure env e st = (fl1, st1)"
    by (cases "recvClosure env e st")
  from recvClosure_ids [of env e st] Cons [of st1] r show ?case
    by (cases fl1) simp_all
qed

lemma HandleDataReturnSignal_db:
  "db (snd (HandleDataReturnSignal env c st)) = db st"
proof (induction c arbitrary: st)
  case Nil
  show ?case by simp
next
  case (Cons e c)
  obtain fl1 st1 where r: "returnClosure env e st = (fl1, st1)"
    by (cases "returnClosure env e st")
  from returnClosure_db [of env e st] Cons [of st1] r show ?case
    by (cases fl1) simp_all
qed

subsection \<open>What the handlers take from the channel\<close>

lemma recvStore_observed [simp]:
  "observed (events (snd (recvStore env d st))) = observed (events st)"
  by (simp add: recvStore_def split: sum.splits)

lemma recvDetached_observed [simp]:
  "observed (events (snd (recvDetached env d st))) = observed (events st)"
  by (simp add: recvDetached_def deferClose_def Let_def split: sum.splits httpResult.splits)



lemma returnSend_observed [simp]:
  "observed (events (snd (returnSend env d req st))) = observed (events st)"
  by (simp add: returnSend_def returnRetire_def deferClose_def Let_def
      split: sum.splits httpResult.splits)

lemma returnDetached_observed [simp]:
  "observed (events (snd (returnDetached env d st))) = observed (events st)"
proof (cases "addHeaders env (Metadata d)
    (case NewRequest env MethodPost (Directive d) (Content d) of Inl err \<Rightarrow> None | Inr r \<Rightarrow> Some r)")
  case (Inl p)
  then show ?thesis by (simp add: returnDetached_def)
next
  case (Inr req)
  then show ?thesis by (simp add: returnDetached_def)
qed







subsection \<open>When the anonymous function returns\<close>

lemma recvStore_flow [simp]: "fst (recvStore env d st) = Returned"
  by (simp add: recvStore_def split: sum.splits)

lemma recvDetached_flow:
  "\<forall>url p. Get env url \<noteq> Panics p \<Longrightarrow> fst (recvDetached env d st) = Returned"
  by (simp add: recvDetached_def deferClose_def Let_def split: sum.splits httpResult.splits)

lemma recvClosure_flow:
  assumes "First env (db st) tableNameData indexNameID messageID \<noteq> Inr INil"
    and "\<forall>url p. Get env url \<noteq> Panics p"
  shows "fst (recvClosure env (IString messageID) st) = Returned"
proof (cases "First env (db st) tableNameData indexNameID messageID")
  case (Inl err)
  then show ?thesis by (simp add: recvClosure_def Let_def)
next
  case (Inr obj)
  with assms(1) First_data_cases [OF Inr] obtain d where d: "obj = IData d" by auto
  show ?thesis
  proof (cases "First env (db st) tableNameWorker indexNameHandler (Directive d)")
    case (Inl err)
    with Inr d show ?thesis by (simp add: recvClosure_def Let_def)
  next
    case w: (Inr obj')
    from First_worker_cases [OF w] Inr d w assms(2) show ?thesis
      by (auto simp add: recvClosure_def Let_def recvDetached_flow)
  qed
qed

lemma addHeaders_Some:
  "\<exists>r'. addHeaders env kvs (Some r) = Inr (Some r')"
proof (induction kvs arbitrary: r)
  case Nil
  show ?case by simp
next
  case (Cons kv kvs)
  then show ?case by (cases kv) simp
qed

lemma returnSend_flow:
  "\<forall>p. Do env req \<noteq> Panics p \<Longrightarrow> fst (returnSend env d req st) = Returned"
  by (simp add: returnSend_def returnRetire_def deferClose_def Let_def
      split: sum.splits httpResult.splits)

lemma returnDetached_flow:
  assumes "newRequestFault env MethodPost (Directive d) = None"
    and "\<forall>r p. Do env (Some r) \<noteq> Panics p"
  shows "fst (returnDetached env d st) = Returned"
proof -
  obtain r' where "addHeaders env (Metadata d)
      (Some \<lparr>Method = MethodPost, URL = Directive d, Header = [], ReqBody = Content d\<rparr>) =
        Inr (Some r')"
    using addHeaders_Some by blast
  with assms show ?thesis
    by (simp add: returnDetached_def NewRequest_def returnSend_flow)
qed

lemma returnClosure_flow:
  assumes "First env (db st) tableNameData indexNameID messageID \<noteq> Inr INil"
    and "\<forall>d. First env (db st) tableNameData indexNameID messageID = Inr (IData d) \<longrightarrow>
           First env (db st) tableNameData indexNameID (ResponseTo d) \<noteq> Inr INil"
    and "\<forall>d orig. First env (db st) tableNameData indexNameID messageID = Inr (IData d) \<longrightarrow>
           First env (db st) tableNameData indexNameID (ResponseTo d) = Inr (IData orig) \<longrightarrow>
           First env (db st) tableNameWorker indexNameHandler (Directive orig) \<noteq> Inr INil"
    and "\<forall>d orig w. First env (db st) tableNameData indexNameID messageID = Inr (IData d) \<longrightarrow>
           First env (db st) tableNameData indexNameID (ResponseTo d) = Inr (IData orig) \<longrightarrow>
           First env (db st) tableNameWorker indexNameHandler (Directive orig) =
             Inr (IWorker w) \<longrightarrow>
           detachedContent w \<longrightarrow> newRequestFault env MethodPost (Directive d) = None"
    and "\<forall>r p. Do env (Some r) \<noteq> Panics p"
  shows "fst (returnClosure env (IString messageID) st) = Returned"
proof (cases "First env (db st) tableNameData indexNameID messageID")
  case (Inl err)
  then show ?thesis by (simp add: returnClosure_def Let_def)
next
  case (Inr obj)
  with assms(1) First_data_cases [OF Inr] obtain d where d: "obj = IData d" by auto
  from assms(2) Inr d have
    n: "First env (db st) tableNameData indexNameID (ResponseTo d) \<noteq> Inr INil" by simp
  show ?thesis
  proof (cases "First env (db st) tableNameData indexNameID (ResponseTo d)")
    case (Inl err)
    with Inr d show ?thesis by (simp add: returnClosure_def Let_def)
  next
    case o: (Inr obj')
    with n First_data_cases [OF o] obtain orig where orig: "obj' = IData orig" by auto
    from assms(3) Inr d o orig have
      nw: "First env (db st) tableNameWorker indexNameHandler (Directive orig) \<noteq> Inr INil"
      by simp
    show ?thesis
    proof (cases "First env (db st) tableNameWorker indexNameHandler (Directive orig)")
      case (Inl err)
      with Inr d o orig show ?thesis by (simp add: returnClosure_def Let_def)
    next
      case w: (Inr obj'')
      with nw First_worker_cases [OF w] obtain wk where wk: "obj'' = IWorker wk" by auto
      show ?thesis
      proof (cases "detachedContent wk")
        case True
        from assms(4) Inr d o orig w wk True have
          q: "newRequestFault env MethodPost (Directive d) = None" by simp
        from Inr d o orig w wk True returnDetached_flow [OF q assms(5)] show ?thesis
          by (simp add: returnClosure_def Let_def)
      next
        case False
        with Inr d o orig w wk show ?thesis
          by (simp add: returnClosure_def returnRetire_def Let_def)
      qed
    qed
  qed
qed

subsection \<open>The events of one value, and of the values behind it\<close>

lemma recvStore_grows [simp]:
  "prefix xs (events st) \<Longrightarrow> prefix xs (events (snd (recvStore env d st)))"
  by (simp add: recvStore_def split: sum.splits)

lemma recvDetached_grows [simp]:
  "prefix xs (events st) \<Longrightarrow> prefix xs (events (snd (recvDetached env d st)))"
  by (simp add: recvDetached_def deferClose_def Let_def split: sum.splits httpResult.splits)


lemma returnSend_grows [simp]:
  "prefix xs (events st) \<Longrightarrow> prefix xs (events (snd (returnSend env d req st)))"
  by (simp add: returnSend_def returnRetire_def deferClose_def Let_def
      split: sum.splits httpResult.splits)

lemma returnDetached_grows [simp]:
  assumes "prefix xs (events st)"
  shows "prefix xs (events (snd (returnDetached env d st)))"
proof (cases "addHeaders env (Metadata d)
    (case NewRequest env MethodPost (Directive d) (Content d) of Inl err \<Rightarrow> None | Inr r \<Rightarrow> Some r)")
  case (Inl p)
  with assms show ?thesis by (simp add: returnDetached_def)
next
  case (Inr req)
  with assms show ?thesis by (simp add: returnDetached_def)
qed












section \<open>The claims\<close>

subsection \<open>The receive handler\<close>

text \<open>
  Claim C6. An inbound message whose \<open>Directive\<close> matches no registered Worker record:
  the lookup of the worker returns \<^verbatim>\<open>nil\<close> without an error, the receive handler emits
  the message's \<open>MessageID\<close> exactly once on \<^verbatim>\<open>data-consume\<close> and nothing on
  \<^verbatim>\<open>data-process\<close>, makes no HTTP call and writes nothing to the store: the store is
  the one it was, and the record with its \<open>Content\<close> is still what the lookup returns.
\<close>

theorem recv_no_worker_retires:
  assumes "First env (db st) tableNameData indexNameID messageID = Inr (IData dataMessage)"
    and "lookupFault env tableNameWorker indexNameHandler (Directive dataMessage) = None"
    and "\<forall>w \<in> set (workerTable (db st)). Handler w \<noteq> Directive dataMessage"
    and "recvClosure env (IString messageID) st = (fl, st')"
  shows "fl = Returned \<and>
         MessageID dataMessage = messageID \<and>
         emitted SignalDataConsume (events st') =
           emitted SignalDataConsume (events st) @ [MessageID dataMessage] \<and>
         emitted SignalDataProcess (events st') = emitted SignalDataProcess (events st) \<and>
         httpCalls (events st') = httpCalls (events st) \<and>
         db st' = db st \<and>
         First env (db st') tableNameData indexNameID messageID = Inr (IData dataMessage)"
proof -
  have w: "First env (db st) tableNameWorker indexNameHandler (Directive dataMessage) = Inr INil"
    using assms(2,3) by (rule First_worker_absent)
  have m: "MessageID dataMessage = messageID"
    using assms(1) by (rule First_data_MessageID)
  show ?thesis
    using assms(1,4) w m by (auto simp add: recvClosure_def Let_def)
qed

theorem recv_no_worker_retires_witness:
  "emitted SignalDataConsume (events (snd (recvClosure exEnv (IString ''m4'') exState))) = [''m4''] \<and>
   emitted SignalDataProcess (events (snd (recvClosure exEnv (IString ''m4'') exState))) = [] \<and>
   db (snd (recvClosure exEnv (IString ''m4'') exState)) = exStore \<and>
   First exEnv (db (snd (recvClosure exEnv (IString ''m4'') exState)))
     tableNameData indexNameID ''m4'' = Inr (IData (mkData ''m4'' [] ''nobody'' ''hello''))"
proof -
  let ?d = "mkData ''m4'' [] ''nobody'' ''hello''"
  let ?r = "recvClosure exEnv (IString ''m4'') exState"
  have h1: "First exEnv (db exState) tableNameData indexNameID ''m4'' = Inr (IData ?d)"
    by (simp add: example_defs)
  have h2: "lookupFault exEnv tableNameWorker indexNameHandler (Directive ?d) = None"
    by (simp add: example_defs)
  have h3: "\<forall>w \<in> set (workerTable (db exState)). Handler w \<noteq> Directive ?d"
    by (simp add: example_defs)
  have h4: "?r = (fst ?r, snd ?r)"
    by simp
  from recv_no_worker_retires [OF h1 h2 h3 h4] show ?thesis
    by (simp add: example_defs)
qed

text \<open>
  Claim C4. An inbound message whose worker has \<open>detachedContent\<close> set, whose content
  unmarshals to a URL, and whose GET on that URL returns status 200 with a body that is
  read in full: once the insert has been committed, the record stored under the
  message's identifier is the record that was read with \<open>Content\<close> replaced by the
  body as it was received, and the \<open>MessageID\<close> is emitted exactly once on
  \<^verbatim>\<open>data-process\<close> (and nothing on \<^verbatim>\<open>data-consume\<close>).
\<close>

theorem recv_detached_ok_stores_body:
  assumes "First env (db st) tableNameData indexNameID messageID = Inr (IData dataMessage)"
    and "First env (db st) tableNameWorker indexNameHandler (Directive dataMessage) =
           Inr (IWorker worker)"
    and "detachedContent worker"
    and "jsonUnmarshal env (Content dataMessage) = Inr url"
    and "Get env url = Responds resp"
    and "StatusCode resp = 200"
    and "Body resp = Inr data"
    and "insertFault env tableNameData (dataMessage\<lparr>Content := data\<rparr>) = None"
    and "recvClosure env (IString messageID) st = (fl, st')"
  shows "fl = Returned \<and>
         First env (db st') tableNameData indexNameID messageID =
           Inr (IData (dataMessage\<lparr>Content := data\<rparr>)) \<and>
         MessageID dataMessage = messageID \<and>
         emitted SignalDataProcess (events st') =
           emitted SignalDataProcess (events st) @ [MessageID dataMessage] \<and>
         emitted SignalDataConsume (events st') = emitted SignalDataConsume (events st)"
proof -
  have m: "MessageID (dataMessage\<lparr>Content := data\<rparr>) = messageID"
    using assms(1) by (simp add: First_data_MessageID)
  obtain s' where
    s': "Insert env (db st) tableNameData (dataMessage\<lparr>Content := data\<rparr>) = Inr s'"
    using assms(8) by (simp add: Insert.simps)
  have f: "First env s' tableNameData indexNameID messageID =
             Inr (IData (dataMessage\<lparr>Content := data\<rparr>))"
    using assms(1) m s' by (rule First_after_Insert)
  show ?thesis
    using assms(1-7,9) s' f m
    by (auto simp add: recvClosure_def recvDetached_def recvStore_def deferClose_def Let_def)
qed

theorem recv_detached_ok_stores_body_witness:
  "First exEnv (db (snd (recvClosure exEnv (IString ''m2'') exState)))
     tableNameData indexNameID ''m2'' = Inr (IData (mkData ''m2'' [] ''fetch'' ''payload'')) \<and>
   emitted SignalDataProcess (events (snd (recvClosure exEnv (IString ''m2'') exState))) = [''m2'']"
proof -
  let ?d = "mkData ''m2'' [] ''fetch'' (CHR 0x22 # ''http://example.test/data'' @ [CHR 0x22])"
  let ?w = "\<lparr>Handler = ''fetch'', detachedContent = True\<rparr>"
  let ?resp = "\<lparr>StatusCode = 200, Body = Inr ''payload''\<rparr>"
  let ?r = "recvClosure exEnv (IString ''m2'') exState"
  have h1: "First exEnv (db exState) tableNameData indexNameID ''m2'' = Inr (IData ?d)"
    by (simp add: example_defs)
  have h2: "First exEnv (db exState) tableNameWorker indexNameHandler (Directive ?d) =
              Inr (IWorker ?w)"
    by (simp add: example_defs)
  have h3: "detachedContent ?w"
    by simp
  have h4: "jsonUnmarshal exEnv (Content ?d) = Inr ''http://example.test/data''"
    by (simp add: example_defs)
  have h5: "Get exEnv ''http://example.test/data'' = Responds ?resp"
    by (simp add: example_defs)
  have h6: "StatusCode ?resp = 200"
    by simp
  have h7: "Body ?resp = Inr ''payload''"
    by simp
  have h8: "insertFault exEnv tableNameData (?d\<lparr>Content := ''payload''\<rparr>) = None"
    by (simp add: example_defs)
  have h9: "?r = (fst ?r, snd ?r)"
    by simp
  from recv_detached_ok_stores_body [OF h1 h2 h3 h4 h5 h6 h7 h8 h9] show ?thesis
    by (simp add: exState_def mkData_def SignalDataProcess_def)
qed

text \<open>
  Claim C5. An inbound message whose worker has \<open>detachedContent\<close> set and whose GET
  returns a response with status 400 or more: the receive handler logs the error (the
  API response error with the status and the trimmed body, or the error of reading the
  body), emits nothing on \<^verbatim>\<open>data-process\<close> nor on \<^verbatim>\<open>data-consume\<close>, and writes
  nothing: the store is the one it was before the message.
\<close>

theorem recv_detached_api_error_no_write:
  assumes "First env (db st) tableNameData indexNameID messageID = Inr (IData dataMessage)"
    and "First env (db st) tableNameWorker indexNameHandler (Directive dataMessage) =
           Inr (IWorker worker)"
    and "detachedContent worker"
    and "jsonUnmarshal env (Content dataMessage) = Inr url"
    and "Get env url = Responds resp"
    and "StatusCode resp \<ge> 400"
    and "recvClosure env (IString messageID) st = (fl, st')"
  shows "fl = Returned \<and>
         db st' = db st \<and>
         First env (db st') tableNameData indexNameID messageID = Inr (IData dataMessage) \<and>
         emitted SignalDataProcess (events st') = emitted SignalDataProcess (events st) \<and>
         emitted SignalDataConsume (events st') = emitted SignalDataConsume (events st) \<and>
         reported (events st') = reported (events st) @
           [case Body resp of
              Inl err \<Rightarrow> err
            | Inr data \<Rightarrow> APIResponseError (StatusCode resp) (TrimSpace env data)]"
  using assms
  by (auto simp add: recvClosure_def recvDetached_def deferClose_def Let_def split: sum.splits)

theorem recv_detached_api_error_no_write_witness:
  "db (snd (recvClosure exEnv (IString ''m3'') exState)) = exStore \<and>
   emitted SignalDataProcess (events (snd (recvClosure exEnv (IString ''m3'') exState))) = [] \<and>
   reported (events (snd (recvClosure exEnv (IString ''m3'') exState))) =
     [APIResponseError 404 ''not found'']"
proof -
  let ?d = "mkData ''m3'' [] ''fetch'' (CHR 0x22 # ''http://example.test/gone'' @ [CHR 0x22])"
  let ?w = "\<lparr>Handler = ''fetch'', detachedContent = True\<rparr>"
  let ?resp = "\<lparr>StatusCode = 404, Body = Inr ''not found''\<rparr>"
  let ?r = "recvClosure exEnv (IString ''m3'') exState"
  have h1: "First exEnv (db exState) tableNameData indexNameID ''m3'' = Inr (IData ?d)"
    by (simp add: example_defs)
  have h2: "First exEnv (db exState) tableNameWorker indexNameHandler (Directive ?d) =
              Inr (IWorker ?w)"
    by (simp add: example_defs)
  have h3: "detachedContent ?w"
    by simp
  have h4: "jsonUnmarshal exEnv (Content ?d) = Inr ''http://example.test/gone''"
    by (simp add: example_defs)
  have h5: "Get exEnv ''http://example.test/gone'' = Responds ?resp"
    by (simp add: example_defs)
  have h6: "StatusCode ?resp \<ge> 400"
    by simp
  have h7: "?r = (fst ?r, snd ?r)"
    by simp
  from recv_detached_api_error_no_write [OF h1 h2 h3 h4 h5 h6 h7] show ?thesis
    by (simp add: example_defs)
qed

subsection \<open>The return handler\<close>

text \<open>
  Claim C7. A reply whose original message's worker has \<open>detachedContent\<close> unset: the
  return handler emits the reply's \<open>MessageID\<close> exactly once on \<^verbatim>\<open>data-consume\<close>, and
  makes no call into the HTTP client.
\<close>

theorem return_not_detached_retires_without_http:
  assumes "First env (db st) tableNameData indexNameID messageID = Inr (IData dataMessage)"
    and "First env (db st) tableNameData indexNameID (ResponseTo dataMessage) =
           Inr (IData originalMessage)"
    and "First env (db st) tableNameWorker indexNameHandler (Directive originalMessage) =
           Inr (IWorker worker)"
    and "\<not> detachedContent worker"
    and "returnClosure env (IString messageID) st = (fl, st')"
  shows "fl = Returned \<and>
         MessageID dataMessage = messageID \<and>
         emitted SignalDataConsume (events st') =
           emitted SignalDataConsume (events st) @ [MessageID dataMessage] \<and>
         httpCalls (events st') = httpCalls (events st)"
  using assms First_data_MessageID [OF assms(1)]
  by (auto simp add: returnClosure_def returnRetire_def Let_def)

theorem return_not_detached_retires_without_http_witness:
  "emitted SignalDataConsume (events (snd (returnClosure exEnv (IString ''r1'') exState))) =
     [''r1''] \<and>
   httpCalls (events (snd (returnClosure exEnv (IString ''r1'') exState))) = []"
proof -
  let ?d = "mkData ''r1'' ''m1'' ''http://example.test/ok'' ''done''"
  let ?o = "mkData ''m1'' [] ''echo'' ''hello''"
  let ?w = "\<lparr>Handler = ''echo'', detachedContent = False\<rparr>"
  let ?r = "returnClosure exEnv (IString ''r1'') exState"
  have h1: "First exEnv (db exState) tableNameData indexNameID ''r1'' = Inr (IData ?d)"
    by (simp add: example_defs)
  have h2: "First exEnv (db exState) tableNameData indexNameID (ResponseTo ?d) = Inr (IData ?o)"
    by (simp add: example_defs)
  have h3: "First exEnv (db exState) tableNameWorker indexNameHandler (Directive ?o) =
              Inr (IWorker ?w)"
    by (simp add: example_defs)
  have h4: "\<not> detachedContent ?w"
    by simp
  have h5: "?r = (fst ?r, snd ?r)"
    by simp
  from return_not_detached_retires_without_http [OF h1 h2 h3 h4 h5] show ?thesis
    by (simp add: example_defs)
qed

text \<open>
  Claim C10. On the return path the result of the worker lookup is asserted to be a
  \<^verbatim>\<open>Worker\<close> without a test for \<^verbatim>\<open>nil\<close>. For a reply whose original message has a
  \<open>Directive\<close> that no registered worker handles, the lookup returns \<^verbatim>\<open>nil\<close> without an
  error, the assertion panics, and the anonymous function is left with nothing emitted
  on \<^verbatim>\<open>data-consume\<close> and no HTTP call made: there is no branch that retires the
  reply as the receive handler retires an undeliverable message.
\<close>

theorem return_missing_worker_panics:
  assumes "First env (db st) tableNameData indexNameID messageID = Inr (IData dataMessage)"
    and "First env (db st) tableNameData indexNameID (ResponseTo dataMessage) =
           Inr (IData originalMessage)"
    and "lookupFault env tableNameWorker indexNameHandler (Directive originalMessage) = None"
    and "\<forall>w \<in> set (workerTable (db st)). Handler w \<noteq> Directive originalMessage"
    and "returnClosure env (IString messageID) st = (fl, st')"
  shows "First env (db st) tableNameWorker indexNameHandler (Directive originalMessage) =
           Inr INil \<and>
         fl = Panicked ''interface conversion: interface {} is not Worker'' \<and>
         emitted SignalDataConsume (events st') = emitted SignalDataConsume (events st) \<and>
         httpCalls (events st') = httpCalls (events st) \<and>
         db st' = db st"
proof -
  have w: "First env (db st) tableNameWorker indexNameHandler (Directive originalMessage) =
             Inr INil"
    using assms(3,4) by (rule First_worker_absent)
  show ?thesis
    using assms(1,2,5) w by (auto simp add: returnClosure_def Let_def)
qed

theorem return_missing_worker_panics_witness:
  "fst (returnClosure exEnv (IString ''r6'') exState) =
     Panicked ''interface conversion: interface {} is not Worker'' \<and>
   emitted SignalDataConsume (events (snd (returnClosure exEnv (IString ''r6'') exState))) = []"
proof -
  let ?d = "mkData ''r6'' ''m4'' ''http://example.test/ok'' ''done''"
  let ?o = "mkData ''m4'' [] ''nobody'' ''hello''"
  let ?r = "returnClosure exEnv (IString ''r6'') exState"
  have h1: "First exEnv (db exState) tableNameData indexNameID ''r6'' = Inr (IData ?d)"
    by (simp add: example_defs)
  have h2: "First exEnv (db exState) tableNameData indexNameID (ResponseTo ?d) = Inr (IData ?o)"
    by (simp add: example_defs)
  have h3: "lookupFault exEnv tableNameWorker indexNameHandler (Directive ?o) = None"
    by (simp add: example_defs)
  have h4: "\<forall>w \<in> set (workerTable (db exState)). Handler w \<noteq> Directive ?o"
    by (simp add: example_defs)
  have h5: "?r = (fst ?r, snd ?r)"
    by simp
  from return_missing_worker_panics [OF h1 h2 h3 h4 h5] show ?thesis
    by (simp add: example_defs)
qed

text \<open>
  Claim C3, as the handler has it. A reply whose \<open>ResponseTo\<close> does not resolve to a
  Message record: the return handler goes no further than that lookup. Nothing is
  emitted on \<^verbatim>\<open>data-consume\<close>, no HTTP call is made, the store is unchanged, and the
  lookup is not tried again. When the store returns an error, that error is logged, the
  anonymous function returns and the loop goes on with the next value. When the store
  returns \<^verbatim>\<open>nil\<close> (no such record), nothing is logged: the assertion of the result to
  \<^verbatim>\<open>Data\<close> panics, and the handler ends there.
\<close>

theorem return_unresolved_original_not_retired:
  assumes "First env (db st) tableNameData indexNameID messageID = Inr (IData dataMessage)"
    and "\<forall>originalMessage.
           First env (db st) tableNameData indexNameID (ResponseTo dataMessage) \<noteq>
             Inr (IData originalMessage)"
    and "returnClosure env (IString messageID) st = (fl, st')"
  shows "emitted SignalDataConsume (events st') = emitted SignalDataConsume (events st) \<and>
         httpCalls (events st') = httpCalls (events st) \<and>
         observed (events st') = observed (events st) @ [messageID] \<and>
         db st' = db st \<and>
         ((\<exists>err. First env (db st) tableNameData indexNameID (ResponseTo dataMessage) = Inl err \<and>
                 reported (events st') = reported (events st) @ [err] \<and> fl = Returned \<and>
                 HandleDataReturnSignal env (IString messageID # c) st =
                   HandleDataReturnSignal env c st') \<or>
          (First env (db st) tableNameData indexNameID (ResponseTo dataMessage) = Inr INil \<and>
           reported (events st') = reported (events st) \<and>
           fl = Panicked ''interface conversion: interface {} is not Data'' \<and>
           HandleDataReturnSignal env (IString messageID # c) st = (fl, st')))"
proof (cases "First env (db st) tableNameData indexNameID (ResponseTo dataMessage)")
  case (Inl err)
  with assms(1,3) show ?thesis
    by (auto simp add: returnClosure_def Let_def)
next
  case (Inr obj)
  with assms(2) First_data_cases [OF Inr] have "obj = INil" by auto
  with Inr assms(1,3) show ?thesis
    by (auto simp add: returnClosure_def Let_def)
qed

theorem return_unresolved_original_not_retired_witness:
  "emitted SignalDataConsume (events (snd (returnClosure exEnv (IString ''r5'') exState))) = [] \<and>
   httpCalls (events (snd (returnClosure exEnv (IString ''r5'') exState))) = [] \<and>
   fst (returnClosure exEnv (IString ''r5'') exState) =
     Panicked ''interface conversion: interface {} is not Data''"
proof -
  let ?d = "mkData ''r5'' ''zz'' ''http://example.test/ok'' ''done''"
  let ?r = "returnClosure exEnv (IString ''r5'') exState"
  have h1: "First exEnv (db exState) tableNameData indexNameID ''r5'' = Inr (IData ?d)"
    by (simp add: example_defs)
  have h2: "\<forall>originalMessage.
              First exEnv (db exState) tableNameData indexNameID (ResponseTo ?d) \<noteq>
                Inr (IData originalMessage)"
    by (simp add: example_defs)
  have h3: "?r = (fst ?r, snd ?r)"
    by simp
  from return_unresolved_original_not_retired [OF h1 h2 h3, of "[]"] show ?thesis
    by (simp add: example_defs)
qed

text \<open>
  Claim C3, as it is stated, fails on the handler. The reply \<open>r5\<close> answers \<open>zz\<close>, which
  names no record. The lookup returns \<^verbatim>\<open>nil\<close> without an error, so no error is logged;
  the assertion panics and the handler ends: the reply \<open>r1\<close> behind it, which the
  handler would have retired, is never taken from the channel.
\<close>

theorem unresolved_original_panics_unlogged:
  "returnClosure exEnv (IString ''r5'') exState =
     (Panicked ''interface conversion: interface {} is not Data'',
      \<lparr>db = exStore,
        events = [Log LevelDebug (Entered ''HandleDataReturnSignal''),
                  Log LevelTrace (ReceivedValue ''r5'')]\<rparr>) \<and>
   reported (events (snd (returnClosure exEnv (IString ''r5'') exState))) = [] \<and>
   HandleDataReturnSignal exEnv [IString ''r5'', IString ''r1''] exState =
     (Panicked ''interface conversion: interface {} is not Data'',
      \<lparr>db = exStore,
        events = [Log LevelDebug (Entered ''HandleDataReturnSignal''),
                  Log LevelTrace (ReceivedValue ''r5'')]\<rparr>) \<and>
   emitted SignalDataConsume
     (events (snd (HandleDataReturnSignal exEnv [IString ''r1''] exState))) = [''r1'']"
  by (simp add: example_defs handler_defs)

text \<open>
  Claim C1, as the handler has it. A reply whose original message's worker has
  \<open>detachedContent\<close> set, and for which the POST request is built: the request is sent
  once, and the reply's \<open>MessageID\<close> is emitted on \<^verbatim>\<open>data-consume\<close> exactly once when
  the client returns a response whose body is read and whose status is below 400. When
  the client returns a transport error, when the body cannot be read, or when the status
  is 400 or more, the anonymous function logs that error and returns, and nothing is
  emitted on \<^verbatim>\<open>data-consume\<close>. The anonymous function returns in all these cases
  (it is left by a panic only when the client itself panics), and the store is unchanged.
\<close>

theorem return_detached_retires_iff_delivered:
  assumes "First env (db st) tableNameData indexNameID messageID = Inr (IData dataMessage)"
    and "First env (db st) tableNameData indexNameID (ResponseTo dataMessage) =
           Inr (IData originalMessage)"
    and "First env (db st) tableNameWorker indexNameHandler (Directive originalMessage) =
           Inr (IWorker worker)"
    and "detachedContent worker"
    and "newRequestFault env MethodPost (Directive dataMessage) = None"
    and "addHeaders env (Metadata dataMessage)
           (Some \<lparr>Method = MethodPost, URL = Directive dataMessage, Header = [],
                   ReqBody = Content dataMessage\<rparr>) = Inr req"
    and "returnClosure env (IString messageID) st = (fl, st')"
  shows "httpCalls (events st') = httpCalls (events st) @ [HTTPDo req] \<and>
         emitted SignalDataConsume (events st') = emitted SignalDataConsume (events st) @
           (case Do env req of
              Responds resp \<Rightarrow>
                (case Body resp of
                   Inr data \<Rightarrow> if StatusCode resp \<ge> 400 then [] else [MessageID dataMessage]
                 | Inl err \<Rightarrow> [])
            | Fails err \<Rightarrow> []
            | Panics p \<Rightarrow> []) \<and>
         reported (events st') = reported (events st) @
           (case Do env req of
              Responds resp \<Rightarrow>
                (case Body resp of
                   Inr data \<Rightarrow>
                     if StatusCode resp \<ge> 400
                     then [APIResponseError (StatusCode resp) (TrimSpace env data)] else []
                 | Inl err \<Rightarrow> [err])
            | Fails err \<Rightarrow> [err]
            | Panics p \<Rightarrow> []) \<and>
         fl = (case Do env req of Panics p \<Rightarrow> Panicked p | _ \<Rightarrow> Returned) \<and>
         db st' = db st"
  using assms
  by (auto simp add: returnClosure_def returnDetached_def returnSend_def returnRetire_def
      NewRequest_def deferClose_def Let_def split: sum.splits httpResult.splits)

theorem return_detached_retires_iff_delivered_witness:
  "httpCalls (events (snd (returnClosure exEnv (IString ''r2'') exState))) =
     [HTTPDo (Some \<lparr>Method = ''POST'', URL = ''http://example.test/ok'',
                     Header = [(''X-Request-Id'', ''7'')], ReqBody = ''done''\<rparr>)] \<and>
   emitted SignalDataConsume (events (snd (returnClosure exEnv (IString ''r2'') exState))) =
     [''r2'']"
proof -
  let ?d = "(mkData ''r2'' ''m2'' ''http://example.test/ok'' ''done'')
              \<lparr>Metadata := [(''X-Request-Id'', '' 7 '')]\<rparr>"
  let ?o = "mkData ''m2'' [] ''fetch'' (CHR 0x22 # ''http://example.test/data'' @ [CHR 0x22])"
  let ?w = "\<lparr>Handler = ''fetch'', detachedContent = True\<rparr>"
  let ?req = "Some \<lparr>Method = ''POST'', URL = ''http://example.test/ok'',
                     Header = [(''X-Request-Id'', ''7'')], ReqBody = ''done''\<rparr>"
  let ?r = "returnClosure exEnv (IString ''r2'') exState"
  have h1: "First exEnv (db exState) tableNameData indexNameID ''r2'' = Inr (IData ?d)"
    by (simp add: example_defs)
  have h2: "First exEnv (db exState) tableNameData indexNameID (ResponseTo ?d) = Inr (IData ?o)"
    by (simp add: example_defs)
  have h3: "First exEnv (db exState) tableNameWorker indexNameHandler (Directive ?o) =
              Inr (IWorker ?w)"
    by (simp add: example_defs)
  have h4: "detachedContent ?w"
    by simp
  have h5: "newRequestFault exEnv MethodPost (Directive ?d) = None"
    by (simp add: example_defs)
  have h6: "addHeaders exEnv (Metadata ?d)
              (Some \<lparr>Method = MethodPost, URL = Directive ?d, Header = [],
                      ReqBody = Content ?d\<rparr>) = Inr ?req"
    by (simp add: example_defs)
  have h7: "?r = (fst ?r, snd ?r)"
    by simp
  from return_detached_retires_iff_delivered [OF h1 h2 h3 h4 h5 h6 h7] show ?thesis
    by (simp add: example_defs)
qed

text \<open>
  Claim C1, as it is stated, fails on the handler. The reply \<open>r4\<close> answers \<open>m2\<close>,
  whose worker \<open>fetch\<close> has \<open>detachedContent\<close> set; the POST fails at the transport
  level; the error is logged and nothing is emitted on \<^verbatim>\<open>data-consume\<close>. The reply
  \<open>r3\<close> answers the same message; the POST returns status 403; again nothing is
  emitted.
\<close>

theorem return_delivery_failure_not_retired:
  "First exEnv (db exState) tableNameWorker indexNameHandler ''fetch'' =
     Inr (IWorker \<lparr>Handler = ''fetch'', detachedContent = True\<rparr>) \<and>
   returnClosure exEnv (IString ''r4'') exState =
     (Returned,
      \<lparr>db = exStore,
        events =
          [Log LevelDebug (Entered ''HandleDataReturnSignal''),
           Log LevelTrace (ReceivedValue ''r4''),
           Log LevelTrace (CreatedRequest
             (Some \<lparr>Method = ''POST'', URL = ''http://example.test/down'', Header = [],
                     ReqBody = ''done''\<rparr>)),
           HTTPDo (Some \<lparr>Method = ''POST'', URL = ''http://example.test/down'', Header = [],
                           ReqBody = ''done''\<rparr>),
           Log LevelError (ErrorValue (TransportError ''no such host''))]\<rparr>) \<and>
   emitted SignalDataConsume (events (snd (returnClosure exEnv (IString ''r4'') exState))) = [] \<and>
   reported (events (snd (returnClosure exEnv (IString ''r3'') exState))) =
     [APIResponseError 403 ''forbidden''] \<and>
   emitted SignalDataConsume (events (snd (returnClosure exEnv (IString ''r3'') exState))) = []"
  by (simp add: example_defs handler_defs)

subsection \<open>The loops\<close>

text \<open>
  Claim C8. Uniqueness of \<open>MessageID\<close> in the Message table is kept by both handlers.
  If the identifiers in the table are pairwise distinct before a handler runs, they are
  so after it has run on any sequence of values. The receive handler's insert is keyed by
  the identifier of the record it has just read, so it takes that record's place: the
  table keeps its length and its list of identifiers. The return handler does not write.
\<close>

theorem MessageID_unique_preserved:
  assumes "distinct (map MessageID (dataTable (db st)))"
  shows "distinct (map MessageID (dataTable (db (snd (HandleDataRecvSignal env c st))))) \<and>
         map MessageID (dataTable (db (snd (HandleDataRecvSignal env c st)))) =
           map MessageID (dataTable (db st)) \<and>
         length (dataTable (db (snd (HandleDataRecvSignal env c st)))) =
           length (dataTable (db st)) \<and>
         db (snd (HandleDataReturnSignal env c' st)) = db st"
proof -
  have m: "map MessageID (dataTable (db (snd (HandleDataRecvSignal env c st)))) =
           map MessageID (dataTable (db st))"
    using HandleDataRecvSignal_ids [of env c st] by simp
  from arg_cong [OF m, of length]
  have l: "length (dataTable (db (snd (HandleDataRecvSignal env c st)))) =
           length (dataTable (db st))"
    by simp
  from m l assms HandleDataReturnSignal_db [of env c' st] show ?thesis by simp
qed

theorem MessageID_unique_preserved_witness:
  "distinct (map MessageID (dataTable exStore)) \<and>
   distinct (map MessageID
     (dataTable (db (snd (HandleDataRecvSignal exEnv [IString ''m2'', IString ''m1''] exState))))) \<and>
   length (dataTable (db (snd (HandleDataRecvSignal exEnv [IString ''m2'', IString ''m1''] exState)))) =
     10"
proof -
  have h: "distinct (map MessageID (dataTable (db exState)))"
    by (simp add: example_defs)
  from h MessageID_unique_preserved [OF h, of exEnv "[IString ''m2'', IString ''m1'']" "[]"]
  show ?thesis
    by (simp add: exState_def exStore_def)
qed



text \<open>
  Claim C2, as the handlers have it. Take a string from the channel. Every failure that
  the handler tests for as an error value is logged as that error and stays with that one
  message: the anonymous function returns, the store is unchanged, nothing is emitted on
  \<^verbatim>\<open>data-process\<close> nor on \<^verbatim>\<open>data-consume\<close>, and the loop goes on with the next value
  of the channel. On the receive path these are the error of either lookup, of
  unmarshalling the content, of the GET, of reading the body, the API response error
  for a status of 400 or more, and the error of the insert; on the return path the error
  of each of the three lookups, of the POST, of reading the body, and the API response
  error.
\<close>

theorem errors_confined_to_message:
  fixes env :: env and st :: state and messageID :: string and c :: "iface list"
  defines "rv \<equiv> recvClosure env (IString messageID) st"
    and "rt \<equiv> returnClosure env (IString messageID) st"
    and "left \<equiv> \<lambda>r err.
           fst r = Returned \<and>
           db (snd r) = db st \<and>
           reported (events (snd r)) = reported (events st) @ [err] \<and>
           emitted SignalDataProcess (events (snd r)) = emitted SignalDataProcess (events st) \<and>
           emitted SignalDataConsume (events (snd r)) = emitted SignalDataConsume (events st)"
  shows
  "(First env (db st) tableNameData indexNameID messageID = Inl err \<longrightarrow> left rv err) \<and>
   (First env (db st) tableNameData indexNameID messageID = Inr (IData d) \<longrightarrow>
      (First env (db st) tableNameWorker indexNameHandler (Directive d) = Inl err \<longrightarrow>
         left rv err) \<and>
      (First env (db st) tableNameWorker indexNameHandler (Directive d) = Inr (IWorker w) \<and>
       \<not> detachedContent w \<and>
       Insert env (db st) tableNameData d = Inl err \<longrightarrow> left rv err) \<and>
      (First env (db st) tableNameWorker indexNameHandler (Directive d) = Inr (IWorker w) \<and>
       detachedContent w \<longrightarrow>
         (jsonUnmarshal env (Content d) = Inl err \<longrightarrow> left rv err) \<and>
         (jsonUnmarshal env (Content d) = Inr url \<longrightarrow>
            (Get env url = Fails err \<longrightarrow> left rv err) \<and>
            (Get env url = Responds resp \<longrightarrow>
               (Body resp = Inl err \<longrightarrow> left rv err) \<and>
               (Body resp = Inr data \<and> StatusCode resp \<ge> 400 \<longrightarrow>
                  left rv (APIResponseError (StatusCode resp) (TrimSpace env data))) \<and>
               (Body resp = Inr data \<and> StatusCode resp < 400 \<and>
                Insert env (db st) tableNameData (d\<lparr>Content := data\<rparr>) = Inl err \<longrightarrow>
                  left rv err))))) \<and>
   (fst rv = Returned \<longrightarrow>
      HandleDataRecvSignal env (IString messageID # c) st =
        HandleDataRecvSignal env c (snd rv)) \<and>
   (First env (db st) tableNameData indexNameID messageID = Inl err \<longrightarrow> left rt err) \<and>
   (First env (db st) tableNameData indexNameID messageID = Inr (IData d) \<longrightarrow>
      (First env (db st) tableNameData indexNameID (ResponseTo d) = Inl err \<longrightarrow>
         left rt err) \<and>
      (First env (db st) tableNameData indexNameID (ResponseTo d) = Inr (IData orig) \<longrightarrow>
         (First env (db st) tableNameWorker indexNameHandler (Directive orig) = Inl err \<longrightarrow>
            left rt err) \<and>
         (First env (db st) tableNameWorker indexNameHandler (Directive orig) =
            Inr (IWorker w) \<and>
          detachedContent w \<and>
          addHeaders env (Metadata d)
            (case NewRequest env MethodPost (Directive d) (Content d) of
               Inl err \<Rightarrow> None | Inr r \<Rightarrow> Some r) = Inr req \<longrightarrow>
            (Do env req = Fails err \<longrightarrow> left rt err) \<and>
            (Do env req = Responds resp \<longrightarrow>
               (Body resp = Inl err \<longrightarrow> left rt err) \<and>
               (Body resp = Inr data \<and> StatusCode resp \<ge> 400 \<longrightarrow>
                  left rt (APIResponseError (StatusCode resp) (TrimSpace env data))))))) \<and>
   (fst rt = Returned \<longrightarrow>
      HandleDataReturnSignal env (IString messageID # c) st =
        HandleDataReturnSignal env c (snd rt))"
proof -
  have lv: "fst rv = Returned \<longrightarrow>
      HandleDataRecvSignal env (IString messageID # c) st =
        HandleDataRecvSignal env c (snd rv)"
    unfolding rv_def by (cases "recvClosure env (IString messageID) st") simp
  have lt: "fst rt = Returned \<longrightarrow>
      HandleDataReturnSignal env (IString messageID # c) st =
        HandleDataReturnSignal env c (snd rt)"
    unfolding rt_def by (cases "returnClosure env (IString messageID) st") simp
  show ?thesis
    unfolding left_def
    apply (intro conjI impI; (erule lv [THEN mp] | erule lt [THEN mp])?)
    unfolding rv_def rt_def
    apply (simp_all add: recvClosure_def recvDetached_def recvStore_def
        returnClosure_def returnDetached_def returnSend_def deferClose_def Let_def)
    done
qed


theorem errors_confined_to_message_witness:
  "reported (events (snd (HandleDataRecvSignal exEnv [IString ''m3'', IString ''m1''] exState))) =
     [APIResponseError 404 ''not found''] \<and>
   emitted SignalDataProcess
     (events (snd (HandleDataRecvSignal exEnv [IString ''m3'', IString ''m1''] exState))) = [''m1''] \<and>
   reported (events (snd (HandleDataReturnSignal exEnv [IString ''r4'', IString ''r1''] exState))) =
     [TransportError ''no such host''] \<and>
   emitted SignalDataConsume
     (events (snd (HandleDataReturnSignal exEnv [IString ''r4'', IString ''r1''] exState))) = [''r1'']"
proof -
  let ?m3 = "mkData ''m3'' [] ''fetch'' (CHR 0x22 # ''http://example.test/gone'' @ [CHR 0x22])"
  let ?m2 = "mkData ''m2'' [] ''fetch'' (CHR 0x22 # ''http://example.test/data'' @ [CHR 0x22])"
  let ?r4 = "mkData ''r4'' ''m2'' ''http://example.test/down'' ''done''"
  let ?w = "\<lparr>Handler = ''fetch'', detachedContent = True\<rparr>"
  let ?resp = "\<lparr>StatusCode = 404, Body = Inr ''not found''\<rparr>"
  let ?req = "Some \<lparr>Method = ''POST'', URL = ''http://example.test/down'', Header = [],
                     ReqBody = ''done''\<rparr>"
  let ?rv = "recvClosure exEnv (IString ''m3'') exState"
  let ?rt = "returnClosure exEnv (IString ''r4'') exState"
  have a1: "First exEnv (db exState) tableNameData indexNameID ''m3'' = Inr (IData ?m3)"
    by (simp add: example_defs)
  have a2: "First exEnv (db exState) tableNameWorker indexNameHandler (Directive ?m3) =
              Inr (IWorker ?w) \<and> detachedContent ?w"
    by (simp add: example_defs)
  have a3: "jsonUnmarshal exEnv (Content ?m3) = Inr ''http://example.test/gone''"
    by (simp add: example_defs)
  have a4: "Get exEnv ''http://example.test/gone'' = Responds ?resp"
    by (simp add: example_defs)
  have a5: "Body ?resp = Inr ''not found'' \<and> StatusCode ?resp \<ge> 400"
    by simp
  have b1: "First exEnv (db exState) tableNameData indexNameID ''r4'' = Inr (IData ?r4)"
    by (simp add: example_defs)
  have b2: "First exEnv (db exState) tableNameData indexNameID (ResponseTo ?r4) = Inr (IData ?m2)"
    by (simp add: example_defs)
  have b3: "First exEnv (db exState) tableNameWorker indexNameHandler (Directive ?m2) =
              Inr (IWorker ?w) \<and>
            detachedContent ?w \<and>
            addHeaders exEnv (Metadata ?r4)
              (case NewRequest exEnv MethodPost (Directive ?r4) (Content ?r4) of
                 Inl err \<Rightarrow> None | Inr r \<Rightarrow> Some r) = Inr ?req"
    by (simp add: example_defs NewRequest_def)
  have b4: "Do exEnv ?req = Fails (TransportError ''no such host'')"
    by (simp add: example_defs)
  note t = errors_confined_to_message [where env = exEnv and st = exState
      and messageID = "''m3''" and c = "[IString ''m1'']" and d = ?m3 and w = ?w
      and url = "''http://example.test/gone''" and resp = ?resp and data = "''not found''"]
  note u = errors_confined_to_message [where env = exEnv and st = exState
      and messageID = "''r4''" and c = "[IString ''r1'']" and d = ?r4 and orig = ?m2 and w = ?w
      and req = ?req and err = "TransportError ''no such host''"]
  from t [THEN conjunct2, THEN conjunct1, THEN mp, OF a1, THEN conjunct2, THEN conjunct2,
      THEN mp, OF a2, THEN conjunct2, THEN mp, OF a3, THEN conjunct2,
      THEN mp, OF a4, THEN conjunct2, THEN conjunct1, THEN mp, OF a5]
  have rv: "fst ?rv = Returned"
    and rv_log: "reported (events (snd ?rv)) =
       reported (events exState) @ [APIResponseError (StatusCode ?resp) (TrimSpace exEnv ''not found'')]"
    by simp_all
  from t [THEN conjunct2, THEN conjunct2, THEN conjunct1, THEN mp, OF rv]
  have recv: "HandleDataRecvSignal exEnv [IString ''m3'', IString ''m1''] exState =
      HandleDataRecvSignal exEnv [IString ''m1''] (snd ?rv)" .
  from u [THEN conjunct2, THEN conjunct2, THEN conjunct2, THEN conjunct2, THEN conjunct1,
      THEN mp, OF b1, THEN conjunct2, THEN mp, OF b2, THEN conjunct2, THEN mp, OF b3,
      THEN conjunct1, THEN mp, OF b4]
  have rt: "fst ?rt = Returned"
    and rt_log: "reported (events (snd ?rt)) =
       reported (events exState) @ [TransportError ''no such host'']"
    by simp_all
  from u [THEN conjunct2, THEN conjunct2, THEN conjunct2, THEN conjunct2, THEN conjunct2,
      THEN mp, OF rt]
  have ret: "HandleDataReturnSignal exEnv [IString ''r4'', IString ''r1''] exState =
      HandleDataReturnSignal exEnv [IString ''r1''] (snd ?rt)" .
  show ?thesis
    unfolding recv ret using rv_log rt_log by (simp add: example_defs handler_defs)
qed

text \<open>
  Claim C2, as it is stated, fails on the handlers. The value \<open>zz\<close> names no record:
  the lookup returns \<^verbatim>\<open>nil\<close>, the assertion to \<^verbatim>\<open>Data\<close> panics, and the receive handler
  ends there. The value \<open>m1\<close> behind it, which the handler would have passed on to
  \<^verbatim>\<open>data-process\<close>, is never taken from the channel.
\<close>

theorem missing_record_halts_handler:
  "HandleDataRecvSignal exEnv [IString ''zz'', IString ''m1''] exState =
     (Panicked ''interface conversion: interface {} is not Data'',
      \<lparr>db = exStore,
        events = [Log LevelDebug (Entered ''HandleDataRecvSignal''),
                  Log LevelTrace (ReceivedValue ''zz'')]\<rparr>) \<and>
   emitted SignalDataProcess
     (events (snd (HandleDataRecvSignal exEnv [IString ''m1''] exState))) = [''m1'']"
  by (simp add: example_defs handler_defs)

subsection \<open>Two runs on the concrete store\<close>

text \<open>
  A worker \<open>echo\<close> without detached content and a message \<open>m1\<close> for it with content
  \<open>hello\<close>: \<open>m1\<close> is emitted on \<^verbatim>\<open>data-process\<close> and the stored content is still
  \<open>hello\<close>.
\<close>

lemma scenario_echo:
  "emitted SignalDataProcess (events (snd (recvClosure exEnv (IString ''m1'') exState))) =
     [''m1''] \<and>
   First exEnv (db (snd (recvClosure exEnv (IString ''m1'') exState)))
     tableNameData indexNameID ''m1'' = Inr (IData (mkData ''m1'' [] ''echo'' ''hello''))"
  by (simp add: example_defs handler_defs)

text \<open>
  A worker \<open>fetch\<close> with detached content and a message \<open>m2\<close> for it whose content is
  the JSON string of a URL that answers 200 with the body \<open>payload\<close>: the stored content
  becomes \<open>payload\<close> and \<open>m2\<close> is emitted on \<^verbatim>\<open>data-process\<close>.
\<close>

lemma scenario_fetch:
  "emitted SignalDataProcess (events (snd (recvClosure exEnv (IString ''m2'') exState))) =
     [''m2''] \<and>
   httpCalls (events (snd (recvClosure exEnv (IString ''m2'') exState))) =
     [HTTPGet ''http://example.test/data''] \<and>
   First exEnv (db (snd (recvClosure exEnv (IString ''m2'') exState)))
     tableNameData indexNameID ''m2'' = Inr (IData (mkData ''m2'' [] ''fetch'' ''payload''))"
  by (simp add: example_defs handler_defs)


end
